theory Spec2Isabelle
  imports Complex_Main "HOL-Library.Product_Lexorder" "HOL-Library.Option_ord"
    "HOL-Library.Log_Nat"
begin

section \<open>Data model of \<^verbatim>\<open>thematic_report_2023/utils.py\<close>\<close>

text \<open>
  The module is a chain of dataframe transformations. A dataframe is modelled as the list
  of its rows, in row order; a nullable column holds \<open>'a option\<close> with \<open>None\<close> for
  pandas' missing value (NaN, NaT, None). Numbers of the \<open>value\<close> column are IEEE 754
  binary64 numbers, as in the program.
  A character is one code point of a Python string (all text of the module lies in
  Latin-1; the micro sign is \<open>CHR 0xB5\<close>).
  Failures of the database driver itself (connection, SQL dialect, constraints) are not
  part of the module and are not modelled; every \<^verbatim>\<open>assert\<close> and every conversion
  error of the module is.
\<close>

text \<open>
  The exceptions the module raises. \<open>AssertionError\<close> carries the message of the
  \<^verbatim>\<open>assert\<close> (empty when it has none), \<open>ValueError\<close> the text that \<^verbatim>\<open>int\<close> rejected.
\<close>

datatype error =
  AssertionError string
  | ValueError string
  | OverflowError

type_synonym date = int

section \<open>Binary64 numbers\<close>

text \<open>
  A float64 that is a number: a finite value, which is a rational, or an infinity. NaN is
  pandas' missing value and is \<open>None\<close> in a column. The sign of a zero is not kept.
\<close>

datatype float64 = Finite rat | PosInf | NegInf

definition pow2 :: "int \<Rightarrow> rat" where
  "pow2 k = (if 0 \<le> k then 2 ^ nat k else 1 / 2 ^ nat (- k))"

definition round_half_even :: "rat \<Rightarrow> int" where
  "round_half_even x =
     (let n = \<lfloor>x\<rfloor>; d = x - of_int n
      in if d < 1 / 2 then n else if 1 / 2 < d then n + 1 else if even n then n else n + 1)"

text \<open>
  The binary exponent of a positive rational \<open>a\<close>, the \<open>e\<close> with \<open>2 ^ e \<le> a < 2 ^ (e + 1)\<close>,
  read off the bit length of \<open>\<lfloor>a\<rfloor>\<close> for \<open>a \<ge> 1\<close> and of \<open>\<lceil>1 / a\<rceil> - 1\<close> below 1, and
  not below -1022, where the subnormal numbers begin.
\<close>

definition exponent :: "rat \<Rightarrow> int" where
  "exponent a =
     max (if 1 \<le> a then bitlen \<lfloor>a\<rfloor> - 1 else - bitlen (\<lceil>1 / a\<rceil> - 1)) (- 1022)"

text \<open>
  Rounding to the nearest binary64 number, ties to even: 53 significant bits, so a unit
  in the last place of \<open>2 ^ (e - 52)\<close>, and an infinity when the rounded magnitude
  reaches \<open>2 ^ 1024\<close>. Python's \<^verbatim>\<open>float\<close> of a decimal text and float64 addition and
  division all round their exact result this way.
\<close>

definition round64 :: "rat \<Rightarrow> float64" where
  "round64 x =
     (let a = \<bar>x\<bar>;
          u = pow2 (exponent a - 52);
          r = of_int (round_half_even (a / u)) * u
      in if 1024 < bitlen \<lfloor>r\<rfloor> then (if x < 0 then NegInf else PosInf)
         else Finite (if x < 0 then - r else r))"

text \<open>Division of a float64 by a positive count.\<close>

definition fdiv :: "float64 \<Rightarrow> nat \<Rightarrow> float64" where
  "fdiv s n =
     (case s of Finite q \<Rightarrow> round64 (q / of_nat n) | PosInf \<Rightarrow> PosInf | NegInf \<Rightarrow> NegInf)"

section \<open>Tables\<close>

text \<open>A column label of a dataframe: a string, or an integer after renaming.\<close>

datatype label = Name string | Num int

text \<open>
  The wide table read from the template: the labels of its parameter columns, in column
  order, and its rows. A row is the entry of the identifier column (\<open>code\<close>, later
  \<open>station_id\<close>), the entry of the \<open>date\<close> column and the cells of the parameter columns.
  A cell is \<open>None\<close> when it is missing and otherwise the text \<^verbatim>\<open>str\<close> gives for it.
\<close>

type_synonym 'i wide_row = "'i \<times> date option \<times> string option list"

record ('c, 'i) wide =
  params :: "'c list"
  body :: "'i wide_row list"

text \<open>
  The long table: \<open>station_id\<close>, \<open>date\<close>, \<open>method_id\<close>, \<open>value\<close>, then \<open>flag1\<close> once
  \<^verbatim>\<open>extract_lod_flags\<close> has run and \<open>water_sample_id\<close> once \<^verbatim>\<open>upload_samples\<close> has.
  The types of \<open>method_id\<close> and \<open>value\<close> change along the pipeline (column label to
  integer, cell text to number), so they are parameters.
\<close>

record ('m, 'v) observation =
  station_id :: "int option"
  date :: "date option"
  method_id :: 'm
  "value" :: 'v

record ('m, 'v) flagged = "('m, 'v) observation" +
  flag1 :: "string option"

record ('m, 'v) sampled = "('m, 'v) flagged" +
  water_sample_id :: "int option"

type_synonym long_obs = "(int option, float64 option) flagged"

type_synonym chem_obs = "(int option, float64 option) sampled"

section \<open>\<^verbatim>\<open>map_method_ids\<close>\<close>

definition meth_map :: "(string \<times> label) list" where
  "meth_map = [
     (''Code'', Name ''code''),
     (''Date'', Name ''date''),
     (''pH'', Num 10268),
     (''Cond25_mS/m at 25C'', Num 10260),
     (''NH4-N_'' @ CHR 0xB5 # ''gN/L'', Num 10264),
     (''Ca_mg/L'', Num 10251),
     (''Mg_mg/L'', Num 10261),
     (''Na_mg/L'', Num 10263),
     (''K_mg/L'', Num 10258),
     (''Alk_'' @ CHR 0xB5 # ''eq/L'', Num 10298),
     (''SO4_mg/L'', Num 10271),
     (''NO3-N_'' @ CHR 0xB5 # ''gN/L'', Num 10265),
     (''Cl_mg/L'', Num 10253),
     (''F_'' @ CHR 0xB5 # ''g/L'', Num 11121),
     (''TOTP_'' @ CHR 0xB5 # ''gP/L'', Num 10275),
     (''TOTN_'' @ CHR 0xB5 # ''gN/L'', Num 10274),
     (''ORTP_'' @ CHR 0xB5 # ''gP/L'', Num 10279),
     (''OKS_mgO/L'', Num 10277),
     (''SiO2_mgSiO2/L'', Num 10270),
     (''DOC_mgC/L'', Num 10294),
     (''TOC_mgC/L'', Num 10273),
     (''PERM_mgO/L'', Num 10267),
     (''TAl_'' @ CHR 0xB5 # ''g/L'', Num 10249),
     (''RAl_'' @ CHR 0xB5 # ''g/L'', Num 10269),
     (''ILAl_'' @ CHR 0xB5 # ''g/L'', Num 10257),
     (''LAl_'' @ CHR 0xB5 # ''g/L'', Num 10292),
     (''Fe_Total_'' @ CHR 0xB5 # ''g/L'', Num 10256),
     (''Mn_Total_'' @ CHR 0xB5 # ''g/L'', Num 10262),
     (''Cd_Total_'' @ CHR 0xB5 # ''g/L'', Num 10252),
     (''Zn_Total_'' @ CHR 0xB5 # ''g/L'', Num 10276),
     (''Cu_Total_'' @ CHR 0xB5 # ''g/L'', Num 10254),
     (''Ni_Total_'' @ CHR 0xB5 # ''g/L'', Num 10281),
     (''Pb_Total_'' @ CHR 0xB5 # ''g/L'', Num 10266),
     (''Cr_Total_'' @ CHR 0xB5 # ''g/L'', Num 10285),
     (''As_Total_'' @ CHR 0xB5 # ''g/L'', Num 10293),
     (''Hg_Total_ng/L'', Num 10921),
     (''Fe_Filt_'' @ CHR 0xB5 # ''g/L'', Num 11122),
     (''Mn_Filt_'' @ CHR 0xB5 # ''g/L'', Num 11123),
     (''Cd_Filt_'' @ CHR 0xB5 # ''g/L'', Num 11124),
     (''Zn_Filt_'' @ CHR 0xB5 # ''g/L'', Num 11125),
     (''Cu_Filt_'' @ CHR 0xB5 # ''g/L'', Num 11126),
     (''Ni_Filt_'' @ CHR 0xB5 # ''g/L'', Num 11127),
     (''Pb_Filt_'' @ CHR 0xB5 # ''g/L'', Num 11128),
     (''Cr_Filt_'' @ CHR 0xB5 # ''g/L'', Num 11129),
     (''As_Filt_'' @ CHR 0xB5 # ''g/L'', Num 11130),
     (''Hg_Filt_ng/L'', Num 11131),
     (''COLOUR_mgPt/L'', Num 10278),
     (''TURB_FTU'', Num 10284),
     (''TEMP_C'', Num 10272),
     (''RUNOFF_m3/s'', Num 10288)]"

text \<open>
  \<^verbatim>\<open>df.rename(meth_map, axis="columns")\<close> replaces a label that is a key of the mapping
  and leaves every other label as it is. The identifier columns \<open>Code\<close> and \<open>Date\<close> are
  the first two components of a row here, so the renaming acts on the parameter columns.
\<close>

definition rename :: "(string \<times> label) list \<Rightarrow> string \<Rightarrow> label" where
  "rename mapper c = (case map_of mapper c of Some l \<Rightarrow> l | None \<Rightarrow> Name c)"

definition map_method_ids :: "(string, 'i) wide \<Rightarrow> (label, 'i) wide" where
  "map_method_ids df = \<lparr>params = map (rename meth_map) (params df), body = body df\<rparr>"

section \<open>\<^verbatim>\<open>map_station_ids\<close>\<close>

text \<open>
  \<^verbatim>\<open>pd.merge(df, stn_df, how="left", on="code")\<close>: every row of \<open>df\<close>, in order, once for
  each row of the reference table with the same code, in the table's order, and once with
  a missing \<open>station_id\<close> when there is none. The reference table is the list of
  (\<open>station_code\<close>, \<open>station_id\<close>) pairs the query returns.
\<close>

definition merge_stations ::
  "string wide_row list \<Rightarrow> (string \<times> int) list \<Rightarrow> (string wide_row \<times> int option) list" where
  "merge_stations rows stn_df =
     concat (map (\<lambda>r.
        case filter (\<lambda>s. fst s = fst r) stn_df of
          [] \<Rightarrow> [(r, None)]
        | ms \<Rightarrow> map (\<lambda>s. (r, Some (snd s))) ms) rows)"

definition map_station_ids ::
  "('c, string) wide \<Rightarrow> (string \<times> int) list \<Rightarrow> error + ('c, int option) wide" where
  "map_station_ids df stn_df =
     (let merged = merge_stations (body df) stn_df
      in if length (filter (\<lambda>m. snd m = None) merged) \<noteq> 0
         then Inl (AssertionError ''Some station codes cannot be matched to IDs.'')
         else Inr \<lparr>params = params df,
                   body = map (\<lambda>m. (snd m, snd (fst m))) merged\<rparr>)"

section \<open>\<^verbatim>\<open>wide_to_long\<close>\<close>

definition cell_at :: "string option list \<Rightarrow> nat \<Rightarrow> string option" where
  "cell_at xs j = (if j < length xs then xs ! j else None)"

text \<open>
  \<^verbatim>\<open>pd.melt\<close> with \<open>station_id\<close> and \<open>date\<close> as identifiers: column after column, and
  inside a column row after row, one long row holding the column's label and the cell.
\<close>

definition melt :: "('c, int option) wide \<Rightarrow> ('c, string option) observation list" where
  "melt df =
     concat (map (\<lambda>(j, l).
        map (\<lambda>(sid, d, xs). \<lparr>station_id = sid, date = d, method_id = l, value = cell_at xs j\<rparr>)
          (body df))
       (enumerate 0 (params df)))"

definition dropna_value ::
  "('c, string option) observation list \<Rightarrow> ('c, string option) observation list" where
  "dropna_value df = filter (\<lambda>r. value r \<noteq> None) df"

text \<open>
  Python's \<^verbatim>\<open>int\<close> on a string, \<open>None\<close> where it raises \<^verbatim>\<open>ValueError\<close>: white space
  is stripped at both ends, then comes an optional sign and then decimal digits, where
  single underscores may stand between digits. (The limit of recent Python versions on
  the length of such a literal is not modelled.)
\<close>

definition py_space :: "char \<Rightarrow> bool" where
  "py_space c =
     (c \<in> set [CHR 0x09, CHR 0x0A, CHR 0x0B, CHR 0x0C, CHR 0x0D, CHR 0x20, CHR 0x85, CHR 0xA0])"

definition strip :: "string \<Rightarrow> string" where
  "strip s = rev (dropWhile py_space (rev (dropWhile py_space s)))"

definition digit :: "char \<Rightarrow> bool" where
  "digit c = (c \<in> set ''0123456789'')"

fun digit_groups :: "string \<Rightarrow> bool" where
  "digit_groups [] = False"
| "digit_groups [c] = digit c"
| "digit_groups (c # d # cs) =
     (digit c \<and> (if d = CHR ''_'' then digit_groups cs else digit_groups (d # cs)))"

definition digits_value :: "string \<Rightarrow> nat" where
  "digits_value ds = foldl (\<lambda>a c. 10 * a + (of_char c - 48)) 0 ds"

definition py_int :: "string \<Rightarrow> int option" where
  "py_int s =
     (let t = strip s;
          negative = (case t of [] \<Rightarrow> False | c # cs \<Rightarrow> c = CHR ''-'');
          digits = (case t of [] \<Rightarrow> []
                    | c # cs \<Rightarrow> if c = CHR ''-'' \<or> c = CHR ''+'' then cs else t)
      in if digit_groups digits
         then Some ((if negative then - 1 else 1) *
                    int (digits_value (filter (\<lambda>c. c \<noteq> CHR ''_'') digits)))
         else None)"

text \<open>
  \<^verbatim>\<open>astype(int)\<close> on the label column converts the labels in row order to 64-bit
  integers and stops at the first that fails: an integer label stays, a string label goes
  through \<^verbatim>\<open>int\<close>, and an integer outside the 64-bit range raises \<^verbatim>\<open>OverflowError\<close>.
\<close>

definition int64 :: "int \<Rightarrow> error + int" where
  "int64 n = (if - (2 ^ 63) \<le> n \<and> n < 2 ^ 63 then Inr n else Inl OverflowError)"

definition label_int :: "label \<Rightarrow> error + int" where
  "label_int l =
     (case l of
        Num n \<Rightarrow> int64 n
      | Name s \<Rightarrow> (case py_int s of None \<Rightarrow> Inl (ValueError s) | Some n \<Rightarrow> int64 n))"

fun astype_int :: "label list \<Rightarrow> error + int list" where
  "astype_int [] = Inr []"
| "astype_int (l # ls) =
     (case label_int l of
        Inl e \<Rightarrow> Inl e
      | Inr n \<Rightarrow> (case astype_int ls of Inl e \<Rightarrow> Inl e | Inr ns \<Rightarrow> Inr (n # ns)))"

definition wide_to_long ::
  "(label, int option) wide \<Rightarrow> error + (int option, string) observation list" where
  "wide_to_long df =
     (let kept = dropna_value (melt df)
      in case astype_int (map method_id kept) of
           Inl e \<Rightarrow> Inl e
         | Inr ns \<Rightarrow>
             Inr (map (\<lambda>(r, n). \<lparr>station_id = station_id r, date = date r,
                                  method_id = Some n,
                                  value = (case value r of Some t \<Rightarrow> t | None \<Rightarrow> [])\<rparr>)
                    (zip kept ns)))"

section \<open>\<^verbatim>\<open>extract_lod_flags\<close>\<close>

text \<open>
  The pattern \<^verbatim>\<open>([-+]?\d*\.\d+|\d+)\<close> is built from three character classes with the
  greedy operators \<^verbatim>\<open>?\<close>, \<^verbatim>\<open>*\<close> and \<^verbatim>\<open>+\<close>, sequence and alternation.
\<close>

datatype cls = Sign | Digit | Dot

fun in_cls :: "cls \<Rightarrow> char \<Rightarrow> bool" where
  "in_cls Sign c = (c = CHR ''-'' \<or> c = CHR ''+'')"
| "in_cls Digit c = (c \<in> set ''0123456789'')"
| "in_cls Dot c = (c = CHR ''.'')"

datatype regex =
  One cls
  | Opt cls
  | Star cls
  | Plus cls
  | Seq regex regex
  | Alt regex regex

text \<open>
  A backtracking matcher in the order Python's \<^verbatim>\<open>re\<close> tries: \<open>rests r s\<close> lists what
  is left of \<open>s\<close> after each way of matching \<open>r\<close> at its start, the way tried first at the
  head. A greedy operator tries the longer match first, an alternation its left branch.
\<close>

fun star_rests :: "cls \<Rightarrow> string \<Rightarrow> string list" where
  "star_rests c [] = [[]]"
| "star_rests c (x # xs) = (if in_cls c x then star_rests c xs @ [x # xs] else [x # xs])"

fun rests :: "regex \<Rightarrow> string \<Rightarrow> string list" where
  "rests (One c) s = (case s of [] \<Rightarrow> [] | x # xs \<Rightarrow> if in_cls c x then [xs] else [])"
| "rests (Opt c) s = (case s of [] \<Rightarrow> [] | x # xs \<Rightarrow> if in_cls c x then [xs] else []) @ [s]"
| "rests (Star c) s = star_rests c s"
| "rests (Plus c) s = (case s of [] \<Rightarrow> [] | x # xs \<Rightarrow> if in_cls c x then star_rests c xs else [])"
| "rests (Seq a b) s = concat (map (rests b) (rests a s))"
| "rests (Alt a b) s = rests a s @ rests b s"

text \<open>\<^verbatim>\<open>re.search\<close>: the first match at the leftmost position that has one.\<close>

fun re_search :: "regex \<Rightarrow> string \<Rightarrow> string option" where
  "re_search r [] = (case rests r [] of [] \<Rightarrow> None | rest # _ \<Rightarrow> Some [])"
| "re_search r (x # xs) =
     (case rests r (x # xs) of
        [] \<Rightarrow> re_search r xs
      | rest # _ \<Rightarrow> Some (take (length (x # xs) - length rest) (x # xs)))"

definition number_pattern :: regex where
  "number_pattern =
     Alt (Seq (Opt Sign) (Seq (Star Digit) (Seq (One Dot) (Plus Digit)))) (Plus Digit)"

text \<open>
  \<^verbatim>\<open>astype(float)\<close> on a matched text, which is an optional sign, digits, and possibly a
  point followed by digits: its decimal value, rounded to binary64.
\<close>

definition unsigned_value :: "string \<Rightarrow> rat" where
  "unsigned_value m =
     (let whole = takeWhile (in_cls Digit) m;
          frac = drop 1 (dropWhile (in_cls Digit) m)
      in of_nat (digits_value whole) + of_nat (digits_value frac) / 10 ^ length frac)"

fun decimal_value :: "string \<Rightarrow> rat" where
  "decimal_value [] = 0"
| "decimal_value (c # m) =
     (if c = CHR ''-'' then - unsigned_value m
      else if c = CHR ''+'' then unsigned_value m
      else unsigned_value (c # m))"

definition to_float :: "string \<Rightarrow> float64" where
  "to_float m = round64 (decimal_value m)"

definition f :: "('m, string, 'z) observation_scheme \<Rightarrow> string option" where
  "f row =
     (if CHR ''<'' \<in> set (value row) then Some ''<''
      else if CHR ''>'' \<in> set (value row) then Some ''>''
      else None)"

definition extract_lod_flags ::
  "('m, string) observation list \<Rightarrow> ('m, float64 option) flagged list" where
  "extract_lod_flags df =
     map (\<lambda>row. \<lparr>station_id = station_id row, date = date row, method_id = method_id row,
                  value = map_option to_float (re_search number_pattern (value row)),
                  flag1 = f row\<rparr>) df"

section \<open>\<^verbatim>\<open>remove_duplicates\<close>\<close>

text \<open>The columns \<^verbatim>\<open>["station_id", "date", "method_id"]\<close> of a row.\<close>

definition key3 ::
  "(int option, 'v, 'z) observation_scheme \<Rightarrow> int option \<times> date option \<times> int option" where
  "key3 r = (station_id r, date r, method_id r)"

text \<open>
  \<^verbatim>\<open>df.groupby(keys)\<close> runs with pandas' defaults \<^verbatim>\<open>dropna=True\<close> and
  \<^verbatim>\<open>sort=True\<close>: a row with a missing entry in a key column belongs to no group, and
  the groups come out in ascending order of their keys.
\<close>

definition notna_key :: "int option \<times> date option \<times> int option \<Rightarrow> bool" where
  "notna_key k = (case k of (s, d, m) \<Rightarrow> s \<noteq> None \<and> d \<noteq> None \<and> m \<noteq> None)"

definition group_keys :: "long_obs list \<Rightarrow> (int option \<times> date option \<times> int option) list" where
  "group_keys df = sort (remdups (filter notna_key (map key3 df)))"

definition group_rows ::
  "long_obs list \<Rightarrow> int option \<times> date option \<times> int option \<Rightarrow> long_obs list" where
  "group_rows df k = filter (\<lambda>r. key3 r = k) df"

text \<open>
  The aggregation \<^verbatim>\<open>"mean"\<close> skips missing values and is missing for a group with no
  value; \<^verbatim>\<open>"first"\<close> is the first entry of the group that is not missing.

  The mean is the float64 sum of the values divided by their number. The sum of one value
  is that value, and the sum of two finite values is their exact sum rounded once, in
  whatever order and with whatever compensation the values are accumulated. The sum of any
  other group depends on the accumulation pandas runs in its compiled code, which the
  module does not fix: it is the parameter \<open>accumulate\<close>, \<open>None\<close> where the sum is no
  number.
\<close>

definition notna_values :: "'a option list \<Rightarrow> 'a list" where
  "notna_values xs = List.map_filter (\<lambda>x. x) xs"

fun float_sum :: "(float64 list \<Rightarrow> float64 option) \<Rightarrow> float64 list \<Rightarrow> float64 option" where
  "float_sum accumulate [a] = Some a"
| "float_sum accumulate [Finite a, Finite b] = Some (round64 (a + b))"
| "float_sum accumulate vs = accumulate vs"

definition agg_mean ::
  "(float64 list \<Rightarrow> float64 option) \<Rightarrow> float64 option list \<Rightarrow> float64 option" where
  "agg_mean accumulate xs =
     (let vs = notna_values xs
      in if vs = [] then None
         else map_option (\<lambda>s. fdiv s (length vs)) (float_sum accumulate vs))"

definition agg_first :: "'a option list \<Rightarrow> 'a option" where
  "agg_first xs = (case notna_values xs of [] \<Rightarrow> None | v # _ \<Rightarrow> Some v)"

definition aggregate ::
  "(float64 list \<Rightarrow> float64 option) \<Rightarrow> long_obs list \<Rightarrow>
     int option \<times> date option \<times> int option \<Rightarrow> long_obs" where
  "aggregate accumulate df k =
     (case k of (s, d, m) \<Rightarrow>
        \<lparr>station_id = s, date = d, method_id = m,
         value = agg_mean accumulate (map value (group_rows df k)),
         flag1 = agg_first (map flag1 (group_rows df k))\<rparr>)"

definition groupby_aggregate ::
  "(float64 list \<Rightarrow> float64 option) \<Rightarrow> long_obs list \<Rightarrow> long_obs list" where
  "groupby_aggregate accumulate df = map (aggregate accumulate df) (group_keys df)"

text \<open>
  \<^verbatim>\<open>df.drop_duplicates(subset=..., keep="first")\<close>: a row is dropped when its entries
  in the subset columns were seen in an earlier row; missing entries compare equal to each
  other here. \<^verbatim>\<open>Series.unique()\<close> lists values in order of first appearance likewise.
\<close>

fun drop_seen :: "('a \<Rightarrow> 'k) \<Rightarrow> 'k list \<Rightarrow> 'a list \<Rightarrow> 'a list" where
  "drop_seen cols seen [] = []"
| "drop_seen cols seen (r # rs) =
     (if cols r \<in> set seen then drop_seen cols seen rs
      else r # drop_seen cols (cols r # seen) rs)"

definition drop_duplicates :: "('a \<Rightarrow> 'k) \<Rightarrow> 'a list \<Rightarrow> 'a list" where
  "drop_duplicates cols df = drop_seen cols [] df"

definition unique :: "'a list \<Rightarrow> 'a list" where
  "unique xs = drop_duplicates (\<lambda>x. x) xs"

definition remove_duplicates ::
  "(float64 list \<Rightarrow> float64 option) \<Rightarrow> string \<Rightarrow> long_obs list \<Rightarrow> error + long_obs list" where
  "remove_duplicates accumulate how df =
     (if \<not> (how = ''mean'' \<or> how = ''drop'')
      then Inl (AssertionError (CHR 0x27 # ''how'' @ CHR 0x27 # '' must be either '' @
             CHR 0x27 # ''mean'' @ CHR 0x27 # '' or '' @ CHR 0x27 # ''drop'' @ CHR 0x27 # ''.''))
      else if how = ''mean'' then Inr (groupby_aggregate accumulate df)
      else Inr (drop_duplicates key3 df))"

text \<open>
  A table of long observations in the sense of the data model: every row has its
  station, its date and its method.
\<close>

definition long_observations :: "long_obs list \<Rightarrow> bool" where
  "long_observations df = list_all (\<lambda>r. notna_key (key3 r)) df"

section \<open>The database\<close>

text \<open>
  The two tables the module writes. A stored water sample is (\<open>water_sample_id\<close>,
  \<open>station_id\<close>, \<open>sample_date\<close>, \<open>depth1\<close>, \<open>depth2\<close>); a stored chemistry value is
  (\<open>method_id\<close>, \<open>value\<close>, \<open>flag1\<close>, \<open>water_sample_id\<close>), the columns the module sends.
\<close>

type_synonym water_sample = "int option \<times> int option \<times> date option \<times> int \<times> int"

type_synonym chem_value = "int option \<times> float64 option \<times> string option \<times> int option"

record database =
  water_samples :: "water_sample list"
  water_chemistry_values2 :: "chem_value list"

text \<open>
  \<^verbatim>\<open>to_sql(..., if_exists="append")\<close> adds the rows in order. The module sends no
  \<open>water_sample_id\<close>: the database gives one to each new row. Its generator is the
  parameter \<open>new_id\<close>, from the table's contents before the row is added.
\<close>

fun append_samples ::
  "(water_sample list \<Rightarrow> int option) \<Rightarrow> water_sample list \<Rightarrow>
     (int option \<times> date option \<times> int \<times> int) list \<Rightarrow> water_sample list" where
  "append_samples new_id tbl [] = tbl"
| "append_samples new_id tbl (r # rs) = append_samples new_id (tbl @ [(new_id tbl, r)]) rs"

text \<open>
  The query for the sample identifiers: \<^verbatim>\<open>WHERE station_id = x\<close> for one station and
  \<^verbatim>\<open>WHERE station_id IN (...)\<close> otherwise; SQL's comparison holds for no missing entry.
\<close>

definition read_samples ::
  "int option list \<Rightarrow> water_sample list \<Rightarrow> (int option \<times> int option \<times> date option) list" where
  "read_samples stn_ids tbl =
     map (\<lambda>(wid, sid, d, d1, d2). (wid, sid, d))
       (case stn_ids of
          [x] \<Rightarrow> filter (\<lambda>(wid, sid, d, d1, d2). sid \<noteq> None \<and> sid = x) tbl
        | _ \<Rightarrow> filter (\<lambda>(wid, sid, d, d1, d2). sid \<noteq> None \<and> sid \<in> set stn_ids) tbl)"

section \<open>\<^verbatim>\<open>upload_samples\<close>\<close>

definition with_sample :: "long_obs \<Rightarrow> int option \<Rightarrow> chem_obs" where
  "with_sample r wid =
     \<lparr>station_id = station_id r, date = date r, method_id = method_id r, value = value r,
      flag1 = flag1 r, water_sample_id = wid\<rparr>"

text \<open>
  \<^verbatim>\<open>pd.merge(df, ws_df, how="left", on=["station_id", "date"])\<close> for one row of \<open>df\<close>.
\<close>

definition merge_sample ::
  "(int option \<times> int option \<times> date option) list \<Rightarrow> long_obs \<Rightarrow> chem_obs list" where
  "merge_sample ws_df r =
     (case filter (\<lambda>(wid, sid, d). sid = station_id r \<and> d = date r) ws_df of
        [] \<Rightarrow> [with_sample r None]
      | ms \<Rightarrow> map (\<lambda>(wid, sid, d). with_sample r wid) ms)"

definition new_samples :: "long_obs list \<Rightarrow> (int option \<times> date option \<times> int \<times> int) list" where
  "new_samples df =
     map (\<lambda>(sid, d). (sid, d, 0, 0)) (unique (map (\<lambda>r. (station_id r, date r)) df))"

definition upload_samples ::
  "(water_sample list \<Rightarrow> int option) \<Rightarrow> long_obs list \<Rightarrow> database \<Rightarrow> bool \<Rightarrow>
     (error + (int option \<times> int option \<times> date option) list \<times> chem_obs list) \<times> database" where
  "upload_samples new_id df eng dry_run =
     (let ws_df = new_samples df;
          eng1 = (if \<not> dry_run
                  then eng\<lparr>water_samples := append_samples new_id (water_samples eng) ws_df\<rparr>
                  else eng);
          stn_ids = unique (map fst ws_df);
          ws_read = read_samples stn_ids (water_samples eng1);
          df1 = concat (map (merge_sample ws_read) df);
          ws_out = unique (map (\<lambda>r. (water_sample_id r, station_id r, date r)) df1)
      in if \<not> dry_run \<and> length (filter (\<lambda>r. water_sample_id r = None) df1) \<noteq> 0
         then (Inl (AssertionError []), eng1)
         else (Inr (ws_out, df1), eng1))"

section \<open>\<^verbatim>\<open>upload_chemistry\<close>\<close>

definition chem_columns :: "chem_obs \<Rightarrow> chem_value" where
  "chem_columns r = (method_id r, value r, flag1 r, water_sample_id r)"

definition upload_chemistry ::
  "chem_obs list \<Rightarrow> database \<Rightarrow> bool \<Rightarrow> (error + chem_value list) \<times> database" where
  "upload_chemistry df eng dry_run =
     (if \<not> dry_run \<and> length (filter (\<lambda>r. method_id r = None) df) \<noteq> 0
      then (Inl (AssertionError []), eng)
      else if \<not> dry_run \<and> length (filter (\<lambda>r. water_sample_id r = None) df) \<noteq> 0
      then (Inl (AssertionError []), eng)
      else if \<not> dry_run \<and> length (filter (\<lambda>r. value r = None) df) \<noteq> 0
      then (Inl (AssertionError []), eng)
      else
        (let df1 = map chem_columns df
         in if \<not> dry_run
            then (Inr df1,
                  eng\<lparr>water_chemistry_values2 := water_chemistry_values2 eng @ df1\<rparr>)
            else (Inr df1, eng)))"

section \<open>Properties of \<^verbatim>\<open>extract_lod_flags\<close>\<close>

lemma round64_half: "round64 (1 / 2) = Finite (1 / 2)"
  by code_simp

lemma round64_ten: "round64 10 = Finite 10"
  by code_simp

lemma round64_five: "round64 5 = Finite 5"
  by code_simp

lemma round64_minus_five: "round64 (- 5) = Finite (- 5)"
  by code_simp

text \<open>
  Claim C3. For every value cell read as text, the flag is \<^verbatim>\<open>"<"\<close> (below the limit of
  detection) if the text contains \<^verbatim>\<open>"<"\<close>, else \<^verbatim>\<open>">"\<close> (above it) if the text
  contains \<^verbatim>\<open>">"\<close>, else missing; the cells \<^verbatim>\<open>"<0.5"\<close>, \<^verbatim>\<open>">10"\<close> and
  \<^verbatim>\<open>"5.2"\<close> give (below, 0.5), (above, 10) and (none, 5.2), the last being the
  binary64 number nearest to 5.2.
\<close>

theorem extract_lod_flags_flag:
  "map flag1 (extract_lod_flags df) =
     map (\<lambda>row. if CHR ''<'' \<in> set (value row) then Some ''<''
                 else if CHR ''>'' \<in> set (value row) then Some ''>'' else None) df \<and>
   extract_lod_flags
     [\<lparr>station_id = s, date = d, method_id = m, value = ''<0.5''\<rparr>,
      \<lparr>station_id = s, date = d, method_id = m, value = ''>10''\<rparr>,
      \<lparr>station_id = s, date = d, method_id = m, value = ''5.2''\<rparr>] =
     [\<lparr>station_id = s, date = d, method_id = m, value = Some (Finite (1 / 2)),
       flag1 = Some ''<''\<rparr>,
      \<lparr>station_id = s, date = d, method_id = m, value = Some (Finite 10),
       flag1 = Some ''>''\<rparr>,
      \<lparr>station_id = s, date = d, method_id = m, value = Some (round64 (52 / 10)),
       flag1 = None\<rparr>]"
proof
  show "map flag1 (extract_lod_flags df) =
     map (\<lambda>row. if CHR ''<'' \<in> set (value row) then Some ''<''
                 else if CHR ''>'' \<in> set (value row) then Some ''>'' else None) df"
    by (simp add: extract_lod_flags_def f_def comp_def)
next
  have a: "re_search number_pattern ''<0.5'' = Some ''0.5''"
    by (simp add: number_pattern_def)
  have b: "re_search number_pattern ''>10'' = Some ''10''"
    by (simp add: number_pattern_def)
  have c: "re_search number_pattern ''5.2'' = Some ''5.2''"
    by (simp add: number_pattern_def)
  have a': "to_float ''0.5'' = Finite (1 / 2)"
    by (simp add: to_float_def unsigned_value_def digits_value_def round64_half)
  have b': "to_float ''10'' = Finite 10"
    by (simp add: to_float_def unsigned_value_def digits_value_def round64_ten)
  have c': "to_float ''5.2'' = round64 (52 / 10)"
    by (simp add: to_float_def unsigned_value_def digits_value_def)
  show "extract_lod_flags
     [\<lparr>station_id = s, date = d, method_id = m, value = ''<0.5''\<rparr>,
      \<lparr>station_id = s, date = d, method_id = m, value = ''>10''\<rparr>,
      \<lparr>station_id = s, date = d, method_id = m, value = ''5.2''\<rparr>] =
     [\<lparr>station_id = s, date = d, method_id = m, value = Some (Finite (1 / 2)),
       flag1 = Some ''<''\<rparr>,
      \<lparr>station_id = s, date = d, method_id = m, value = Some (Finite 10),
       flag1 = Some ''>''\<rparr>,
      \<lparr>station_id = s, date = d, method_id = m, value = Some (round64 (52 / 10)),
       flag1 = None\<rparr>]"
    by (simp add: extract_lod_flags_def f_def a b c a' b' c' del: re_search.simps)
qed

theorem extract_lod_flags_flag_witness:
  "map flag1 (extract_lod_flags
     [\<lparr>station_id = Some 1, date = Some 20200101, method_id = Some (10268 :: int), value = ''<0.5''\<rparr>,
      \<lparr>station_id = Some 1, date = Some 20200101, method_id = Some 10251, value = ''>10''\<rparr>,
      \<lparr>station_id = Some 1, date = Some 20200101, method_id = Some 10261, value = ''5.2''\<rparr>,
      \<lparr>station_id = Some 1, date = Some 20200101, method_id = Some 10263, value = ''>1<''\<rparr>]) =
   [Some ''<'', Some ''>'', None, Some ''<'']"
  using extract_lod_flags_flag [THEN conjunct1, of
     "[\<lparr>station_id = Some 1, date = Some 20200101, method_id = Some (10268 :: int), value = ''<0.5''\<rparr>,
      \<lparr>station_id = Some 1, date = Some 20200101, method_id = Some 10251, value = ''>10''\<rparr>,
      \<lparr>station_id = Some 1, date = Some 20200101, method_id = Some 10261, value = ''5.2''\<rparr>,
      \<lparr>station_id = Some 1, date = Some 20200101, method_id = Some 10263, value = ''>1<''\<rparr>]"]
  by simp

text \<open>
  Claim C4. The pattern's sign belongs to its first alternative only, the one with a
  fractional part. On the cell \<^verbatim>\<open>"-5"\<close> the first alternative fails at the sign, the
  second has no sign, and the search moves on to match \<^verbatim>\<open>"5"\<close>: the value is 5, where
  the cell \<^verbatim>\<open>"-5.0"\<close> gives -5.
\<close>

theorem extract_lod_flags_integer_sign:
  "extract_lod_flags
     [\<lparr>station_id = Some 1, date = Some 20200101, method_id = Some (10298 :: int), value = ''-5''\<rparr>,
      \<lparr>station_id = Some 1, date = Some 20200102, method_id = Some 10298, value = ''-5.0''\<rparr>] =
     [\<lparr>station_id = Some 1, date = Some 20200101, method_id = Some 10298,
       value = Some (Finite 5), flag1 = None\<rparr>,
      \<lparr>station_id = Some 1, date = Some 20200102, method_id = Some 10298,
       value = Some (Finite (- 5)), flag1 = None\<rparr>]"
proof -
  have a: "re_search number_pattern ''-5'' = Some ''5''"
    by (simp add: number_pattern_def)
  have b: "re_search number_pattern ''-5.0'' = Some ''-5.0''"
    by (simp add: number_pattern_def)
  have a': "to_float ''5'' = Finite 5"
    by (simp add: to_float_def unsigned_value_def digits_value_def round64_five)
  have b': "to_float ''-5.0'' = Finite (- 5)"
    by (simp add: to_float_def unsigned_value_def digits_value_def round64_minus_five)
  show ?thesis
    by (simp add: extract_lod_flags_def f_def a b a' b' del: re_search.simps)
qed

section \<open>Properties of \<^verbatim>\<open>map_station_ids\<close>\<close>

lemma merge_stations_unmatched:
  "filter (\<lambda>m. snd m = None) (merge_stations rows stn_df) = [] \<longleftrightarrow>
     list_all (\<lambda>r. fst r \<in> set (map fst stn_df)) rows"
proof (induction rows)
  case Nil
  then show ?case by (simp add: merge_stations_def)
next
  case (Cons r rows)
  have step: "merge_stations (r # rows) stn_df =
      (case filter (\<lambda>s. fst s = fst r) stn_df of
          [] \<Rightarrow> [(r, None)]
        | ms \<Rightarrow> map (\<lambda>s. (r, Some (snd s))) ms) @ merge_stations rows stn_df"
    by (simp add: merge_stations_def)
  have here: "filter (\<lambda>m. snd m = None)
      (case filter (\<lambda>s. fst s = fst r) stn_df of
          [] \<Rightarrow> [(r, None)]
        | ms \<Rightarrow> map (\<lambda>s. (r, Some (snd s))) ms) = [] \<longleftrightarrow> fst r \<in> set (map fst stn_df)"
  proof (cases "filter (\<lambda>s. fst s = fst r) stn_df")
    case Nil
    then have "fst r \<notin> set (map fst stn_df)"
      by (auto simp: filter_empty_conv)
    with Nil show ?thesis by simp
  next
    case (Cons m ms)
    then have "m \<in> set (filter (\<lambda>s. fst s = fst r) stn_df)" by simp
    then have "fst r \<in> set (map fst stn_df)" by force
    with Cons show ?thesis by (simp add: filter_empty_conv)
  qed
  show ?case
    using Cons.IH here by (simp add: step)
qed

text \<open>
  Claim C6, as the code has it. The mapping succeeds exactly when every station code of
  the input has a match in the reference table. Otherwise it fails with the assertion
  error of the one fixed message, whatever the unmatched codes are: the error does not
  list them.
\<close>

theorem map_station_ids_result:
  "map_station_ids df stn_df =
     (if list_all (\<lambda>r. fst r \<in> set (map fst stn_df)) (body df)
      then Inr \<lparr>params = params df,
                body = map (\<lambda>m. (snd m, snd (fst m))) (merge_stations (body df) stn_df)\<rparr>
      else Inl (AssertionError ''Some station codes cannot be matched to IDs.''))"
  using merge_stations_unmatched [of "body df" stn_df]
  by (simp add: map_station_ids_def Let_def)

theorem map_station_ids_result_witness:
  "map_station_ids
     \<lparr>params = [Num 10268], body = [(''ABC'', Some 20200101, [Some ''7.1'']),
                                     (''DEF'', Some 20200101, [Some ''7.3''])]\<rparr>
     [(''DEF'', 12), (''ABC'', 5)] =
   Inr \<lparr>params = [Num 10268], body = [(Some 5, Some 20200101, [Some ''7.1'']),
                                       (Some 12, Some 20200101, [Some ''7.3''])]\<rparr>"
  using map_station_ids_result [of
     "\<lparr>params = [Num 10268], body = [(''ABC'', Some 20200101, [Some ''7.1'']),
                                     (''DEF'', Some 20200101, [Some ''7.3''])]\<rparr>"
     "[(''DEF'', 12), (''ABC'', 5)]"]
  by (simp add: merge_stations_def)

text \<open>
  Two inputs that differ in their unmatched code, \<^verbatim>\<open>ABC\<close> and \<^verbatim>\<open>XYZ\<close>, fail with
  the same error value, so the error names neither.
\<close>

theorem map_station_ids_error_counterexample:
  "map_station_ids
     \<lparr>params = [Num 10268], body = [(''ABC'', Some 20200101, [Some ''7.1''])]\<rparr>
     [(''DEF'', 12)] =
   Inl (AssertionError ''Some station codes cannot be matched to IDs.'') \<and>
   map_station_ids
     \<lparr>params = [Num 10268], body = [(''XYZ'', Some 20200101, [Some ''7.1''])]\<rparr>
     [(''DEF'', 12)] =
   Inl (AssertionError ''Some station codes cannot be matched to IDs.'')"
  by (simp add: map_station_ids_def merge_stations_def)

section \<open>Properties of \<^verbatim>\<open>map_method_ids\<close> and \<^verbatim>\<open>wide_to_long\<close>\<close>

lemma in_melt:
  "x \<in> set (melt df) \<longleftrightarrow>
     (\<exists>j r. j < length (params df) \<and> r \<in> set (body df) \<and>
        x = \<lparr>station_id = fst r, date = fst (snd r), method_id = params df ! j,
             value = cell_at (snd (snd r)) j\<rparr>)"
proof
  assume "x \<in> set (melt df)"
  then obtain p r where p: "p \<in> set (enumerate 0 (params df))" and r: "r \<in> set (body df)"
    and x: "x = \<lparr>station_id = fst r, date = fst (snd r), method_id = snd p,
                 value = cell_at (snd (snd r)) (fst p)\<rparr>"
    by (auto simp: melt_def split_beta)
  from p have "fst p < length (params df)" "snd p = params df ! fst p"
    by (auto simp: in_set_enumerate_eq)
  with r x show "\<exists>j r. j < length (params df) \<and> r \<in> set (body df) \<and>
        x = \<lparr>station_id = fst r, date = fst (snd r), method_id = params df ! j,
             value = cell_at (snd (snd r)) j\<rparr>"
    by (intro exI [of _ "fst p"] exI [of _ r]) simp
next
  assume "\<exists>j r. j < length (params df) \<and> r \<in> set (body df) \<and>
        x = \<lparr>station_id = fst r, date = fst (snd r), method_id = params df ! j,
             value = cell_at (snd (snd r)) j\<rparr>"
  then obtain j r where j: "j < length (params df)" and r: "r \<in> set (body df)"
    and x: "x = \<lparr>station_id = fst r, date = fst (snd r), method_id = params df ! j,
                 value = cell_at (snd (snd r)) j\<rparr>"
    by blast
  from j have "(j, params df ! j) \<in> set (enumerate 0 (params df))"
    by (simp add: in_set_enumerate_eq)
  with r x show "x \<in> set (melt df)"
    by (force simp: melt_def split_beta)
qed

lemma rename_unmapped: "map_of mapper c = None \<Longrightarrow> rename mapper c = Name c"
  by (simp add: rename_def)

lemma astype_int_fails:
  "(\<exists>e. astype_int ls = Inl e) \<longleftrightarrow> (\<exists>l \<in> set ls. \<exists>e. label_int l = Inl e)"
  by (induction ls) (auto split: sum.splits)

lemma astype_int_result:
  "astype_int ls = Inr ns \<Longrightarrow> ns = map (\<lambda>l. projr (label_int l)) ls"
  by (induction ls arbitrary: ns) (auto split: sum.splits)

lemma astype_int_each:
  "astype_int ls = Inr ns \<Longrightarrow> l \<in> set ls \<Longrightarrow> \<exists>n. label_int l = Inr n"
  by (induction ls arbitrary: ns) (auto split: sum.splits)

lemma zip_map_same: "zip xs (map h xs) = map (\<lambda>x. (x, h x)) xs"
  by (induction xs) simp_all

lemma wide_to_long_fails:
  "(\<exists>e. wide_to_long w = Inl e) \<longleftrightarrow>
     (\<exists>x \<in> set (melt w). value x \<noteq> None \<and> (\<exists>e. label_int (method_id x) = Inl e))"
proof -
  have "(\<exists>e. wide_to_long w = Inl e) \<longleftrightarrow>
      (\<exists>e. astype_int (map method_id (dropna_value (melt w))) = Inl e)"
    by (auto simp: wide_to_long_def Let_def split: sum.splits)
  also have "\<dots> \<longleftrightarrow> (\<exists>x \<in> set (melt w). value x \<noteq> None \<and> (\<exists>e. label_int (method_id x) = Inl e))"
    unfolding astype_int_fails by (auto simp: dropna_value_def)
  finally show ?thesis .
qed

lemma wide_to_long_rows:
  assumes "wide_to_long w = Inr out"
  shows "x \<in> set out \<longleftrightarrow>
     (\<exists>y \<in> set (melt w). \<exists>t n. value y = Some t \<and> label_int (method_id y) = Inr n \<and>
        x = \<lparr>station_id = station_id y, date = date y, method_id = Some n, value = t\<rparr>)"
proof -
  let ?kept = "dropna_value (melt w)"
  from assms obtain ns where ns: "astype_int (map method_id ?kept) = Inr ns"
    and out: "out = map (\<lambda>(r, n). \<lparr>station_id = station_id r, date = date r,
                                  method_id = Some n,
                                  value = (case value r of Some t \<Rightarrow> t | None \<Rightarrow> [])\<rparr>)
                    (zip ?kept ns)"
    by (auto simp: wide_to_long_def Let_def split: sum.splits)
  from astype_int_result [OF ns]
  have "ns = map (\<lambda>r. projr (label_int (method_id r))) ?kept"
    by (simp add: comp_def)
  with out have out': "out = map (\<lambda>r. \<lparr>station_id = station_id r, date = date r,
                                  method_id = Some (projr (label_int (method_id r))),
                                  value = (case value r of Some t \<Rightarrow> t | None \<Rightarrow> [])\<rparr>) ?kept"
    by (simp add: zip_map_same comp_def)
  have each: "\<exists>n. label_int (method_id y) = Inr n" if "y \<in> set ?kept" for y
    using astype_int_each [OF ns, of "method_id y"] that by auto
  show ?thesis
  proof
    assume "x \<in> set out"
    with out' obtain y where y: "y \<in> set ?kept"
      and x: "x = \<lparr>station_id = station_id y, date = date y,
                   method_id = Some (projr (label_int (method_id y))),
                   value = (case value y of Some t \<Rightarrow> t | None \<Rightarrow> [])\<rparr>"
      by auto
    from y obtain t where t: "y \<in> set (melt w)" "value y = Some t"
      by (auto simp: dropna_value_def)
    from each [OF y] obtain n where n: "label_int (method_id y) = Inr n" by blast
    from x t n have "x = \<lparr>station_id = station_id y, date = date y, method_id = Some n, value = t\<rparr>"
      by simp
    with t n show "\<exists>y \<in> set (melt w). \<exists>t n. value y = Some t \<and> label_int (method_id y) = Inr n \<and>
        x = \<lparr>station_id = station_id y, date = date y, method_id = Some n, value = t\<rparr>"
      by blast
  next
    assume "\<exists>y \<in> set (melt w). \<exists>t n. value y = Some t \<and> label_int (method_id y) = Inr n \<and>
        x = \<lparr>station_id = station_id y, date = date y, method_id = Some n, value = t\<rparr>"
    then obtain y t n where y: "y \<in> set (melt w)" "value y = Some t"
        "label_int (method_id y) = Inr n"
        "x = \<lparr>station_id = station_id y, date = date y, method_id = Some n, value = t\<rparr>"
      by blast
    from y(1,2) have "y \<in> set ?kept" by (simp add: dropna_value_def)
    with y(2,3,4) out' show "x \<in> set out"
      by (force simp: image_iff)
  qed
qed

lemma py_int_Foo: "py_int ''Foo_mg/L'' = None"
  by (simp add: py_int_def strip_def py_space_def digit_def)

lemma py_int_123: "py_int ''123'' = Some 123"
  by (simp add: py_int_def strip_def py_space_def digit_def digits_value_def)

lemma py_int_examples:
  "py_int '' 1_000 '' = Some 1000 \<and> py_int ''-7'' = Some (- 7) \<and> py_int ''1__0'' = None \<and>
   py_int ''+'' = None \<and> py_int '''' = None \<and> py_int ''1.0'' = None \<and> py_int ''12_'' = None"
  by (simp add: py_int_def strip_def py_space_def digit_def digits_value_def)

text \<open>
  Claim C9, as the code has it. A parameter column whose header is no key of the method
  map keeps its string name through the renaming. The reshaper raises an error at the
  conversion exactly when some column holding a cell that is not missing has a label
  that does not convert: a string that \<^verbatim>\<open>int\<close> rejects, or an integer outside the 64-bit
  range. When it returns, its rows are the cells that are not missing, each under the
  integer its column's label converts to: an unmapped column whose name is an integer
  literal passes under that integer.
\<close>

theorem unmapped_column_reshape:
  assumes "map_of meth_map c = None"
  shows "rename meth_map c = Name c \<and>
         (\<forall>df j. j < length (params df) \<and> params df ! j = c \<longrightarrow>
            params (map_method_ids df) ! j = Name c) \<and>
         ((\<exists>e. wide_to_long w = Inl e) \<longleftrightarrow>
            (\<exists>j r. j < length (params w) \<and> r \<in> set (body w) \<and>
               cell_at (snd (snd r)) j \<noteq> None \<and> (\<exists>e. label_int (params w ! j) = Inl e))) \<and>
         (\<forall>s. (\<exists>e. label_int (Name s) = Inl e) \<longleftrightarrow>
            (case py_int s of None \<Rightarrow> True | Some n \<Rightarrow> n < - (2 ^ 63) \<or> 2 ^ 63 \<le> n)) \<and>
         (\<forall>out x. wide_to_long w = Inr out \<longrightarrow>
            (x \<in> set out \<longleftrightarrow>
               (\<exists>j r t n. j < length (params w) \<and> r \<in> set (body w) \<and>
                  cell_at (snd (snd r)) j = Some t \<and> label_int (params w ! j) = Inr n \<and>
                  x = \<lparr>station_id = fst r, date = fst (snd r), method_id = Some n,
                       value = t\<rparr>)))"
proof -
  have a: "rename meth_map c = Name c"
    using assms by (rule rename_unmapped)
  have b: "params (map_method_ids df) ! j = Name c"
    if "j < length (params df)" "params df ! j = c" for df :: "(string, 'a) wide" and j
    using that a by (simp add: map_method_ids_def)
  have c: "(\<exists>e. wide_to_long w = Inl e) \<longleftrightarrow>
            (\<exists>j r. j < length (params w) \<and> r \<in> set (body w) \<and>
               cell_at (snd (snd r)) j \<noteq> None \<and> (\<exists>e. label_int (params w ! j) = Inl e))"
  proof
    assume "\<exists>e. wide_to_long w = Inl e"
    then obtain x e where x: "x \<in> set (melt w)" "value x \<noteq> None"
        "label_int (method_id x) = Inl e"
      unfolding wide_to_long_fails by blast
    from x(1) obtain j r where jr: "j < length (params w)" "r \<in> set (body w)"
        "x = \<lparr>station_id = fst r, date = fst (snd r), method_id = params w ! j,
              value = cell_at (snd (snd r)) j\<rparr>"
      unfolding in_melt by blast
    from x(2,3) jr(3) have "cell_at (snd (snd r)) j \<noteq> None" "label_int (params w ! j) = Inl e"
      by simp_all
    with jr(1,2) show "\<exists>j r. j < length (params w) \<and> r \<in> set (body w) \<and>
               cell_at (snd (snd r)) j \<noteq> None \<and> (\<exists>e. label_int (params w ! j) = Inl e)"
      by blast
  next
    assume "\<exists>j r. j < length (params w) \<and> r \<in> set (body w) \<and>
               cell_at (snd (snd r)) j \<noteq> None \<and> (\<exists>e. label_int (params w ! j) = Inl e)"
    then obtain j r e where h: "j < length (params w)" "r \<in> set (body w)"
        "cell_at (snd (snd r)) j \<noteq> None" "label_int (params w ! j) = Inl e"
      by blast
    let ?x = "\<lparr>station_id = fst r, date = fst (snd r), method_id = params w ! j,
               value = cell_at (snd (snd r)) j\<rparr>"
    from h(1,2) have "?x \<in> set (melt w)"
      unfolding in_melt by blast
    moreover from h(3) have "value ?x \<noteq> None" by simp
    moreover from h(4) have "label_int (method_id ?x) = Inl e" by simp
    ultimately show "\<exists>e. wide_to_long w = Inl e"
      unfolding wide_to_long_fails by blast
  qed
  have d: "(\<exists>e. label_int (Name s) = Inl e) \<longleftrightarrow>
            (case py_int s of None \<Rightarrow> True | Some n \<Rightarrow> n < - (2 ^ 63) \<or> 2 ^ 63 \<le> n)" for s
    by (auto simp: label_int_def int64_def split: option.splits)
  have e: "x \<in> set out \<longleftrightarrow>
               (\<exists>j r t n. j < length (params w) \<and> r \<in> set (body w) \<and>
                  cell_at (snd (snd r)) j = Some t \<and> label_int (params w ! j) = Inr n \<and>
                  x = \<lparr>station_id = fst r, date = fst (snd r), method_id = Some n,
                       value = t\<rparr>)"
    if ok: "wide_to_long w = Inr out" for out x
  proof
    assume "x \<in> set out"
    then obtain y t n where y: "y \<in> set (melt w)" "value y = Some t"
        "label_int (method_id y) = Inr n"
        "x = \<lparr>station_id = station_id y, date = date y, method_id = Some n, value = t\<rparr>"
      unfolding wide_to_long_rows [OF ok] by blast
    from y(1) obtain j r where jr: "j < length (params w)" "r \<in> set (body w)"
        "y = \<lparr>station_id = fst r, date = fst (snd r), method_id = params w ! j,
              value = cell_at (snd (snd r)) j\<rparr>"
      unfolding in_melt by blast
    from y(2,3,4) jr(3) have "cell_at (snd (snd r)) j = Some t"
        "label_int (params w ! j) = Inr n"
        "x = \<lparr>station_id = fst r, date = fst (snd r), method_id = Some n, value = t\<rparr>"
      by simp_all
    with jr(1,2) show "\<exists>j r t n. j < length (params w) \<and> r \<in> set (body w) \<and>
                  cell_at (snd (snd r)) j = Some t \<and> label_int (params w ! j) = Inr n \<and>
                  x = \<lparr>station_id = fst r, date = fst (snd r), method_id = Some n,
                       value = t\<rparr>"
      by blast
  next
    assume "\<exists>j r t n. j < length (params w) \<and> r \<in> set (body w) \<and>
                  cell_at (snd (snd r)) j = Some t \<and> label_int (params w ! j) = Inr n \<and>
                  x = \<lparr>station_id = fst r, date = fst (snd r), method_id = Some n,
                       value = t\<rparr>"
    then obtain j r t n where h: "j < length (params w)" "r \<in> set (body w)"
        "cell_at (snd (snd r)) j = Some t" "label_int (params w ! j) = Inr n"
        "x = \<lparr>station_id = fst r, date = fst (snd r), method_id = Some n, value = t\<rparr>"
      by blast
    let ?y = "\<lparr>station_id = fst r, date = fst (snd r), method_id = params w ! j,
               value = cell_at (snd (snd r)) j\<rparr>"
    from h(1,2) have "?y \<in> set (melt w)"
      unfolding in_melt by blast
    moreover from h(3) have "value ?y = Some t" by simp
    moreover from h(4) have "label_int (method_id ?y) = Inr n" by simp
    moreover from h(5) have
      "x = \<lparr>station_id = station_id ?y, date = date ?y, method_id = Some n, value = t\<rparr>"
      by simp
    ultimately show "x \<in> set out"
      unfolding wide_to_long_rows [OF ok] by blast
  qed
  from a b c d e show ?thesis by blast
qed

theorem unmapped_column_reshape_witness:
  "map_of meth_map ''Foo_mg/L'' = None \<and>
   params (map_method_ids
     \<lparr>params = [''pH'', ''Foo_mg/L''],
      body = [(''ABC'', Some 20200101, [Some ''7.1'', Some ''3''])]\<rparr>) ! 1 = Name ''Foo_mg/L'' \<and>
   wide_to_long
     \<lparr>params = [Num 10268, Name ''Foo_mg/L''],
      body = [(Some 5, Some 20200101, [Some ''7.1'', Some ''3''])]\<rparr> =
   Inl (ValueError ''Foo_mg/L'')"
proof -
  have h: "map_of meth_map ''Foo_mg/L'' = None"
    by (simp add: meth_map_def)
  have l: "label_int (Name ''Foo_mg/L'') = Inl (ValueError ''Foo_mg/L'')"
    by (simp add: label_int_def py_int_Foo)
  have p: "label_int (Num 10268) = Inr 10268"
    by (simp add: label_int_def int64_def)
  have e: "wide_to_long
     \<lparr>params = [Num 10268, Name ''Foo_mg/L''],
      body = [(Some 5, Some 20200101, [Some ''7.1'', Some ''3''])]\<rparr> =
   Inl (ValueError ''Foo_mg/L'')"
    by (simp add: wide_to_long_def melt_def dropna_value_def cell_at_def enumerate_eq_zip
        upt_rec l p)
  show ?thesis
    using h e unmapped_column_reshape [OF h, of
      "\<lparr>params = [Num 10268, Name ''Foo_mg/L''],
      body = [(Some 5, Some 20200101, [Some ''7.1'', Some ''3''])]\<rparr>"]
    by (simp add: map_method_ids_def rename_def)
qed

text \<open>
  First, the column \<^verbatim>\<open>Foo_mg/L\<close> is no key of the method map and keeps its name; all
  its cells are missing, they are dropped before the conversion, and the reshaper returns
  the two pH observations without an error. Second, the column \<^verbatim>\<open>123\<close> is no key of
  the method map either; its name converts, no error is raised, and its cell comes out
  as an observation of method 123.
\<close>

theorem unmapped_empty_column_counterexample:
  "map_of meth_map ''Foo_mg/L'' = None \<and>
   map_station_ids (map_method_ids
     \<lparr>params = [''pH'', ''Foo_mg/L''],
      body = [(''ABC'', Some 20200101, [Some ''7.1'', None]),
              (''ABC'', Some 20200102, [Some ''<7.3'', None])]\<rparr>) [(''ABC'', 5)] =
   Inr \<lparr>params = [Num 10268, Name ''Foo_mg/L''],
        body = [(Some 5, Some 20200101, [Some ''7.1'', None]),
                (Some 5, Some 20200102, [Some ''<7.3'', None])]\<rparr> \<and>
   wide_to_long
     \<lparr>params = [Num 10268, Name ''Foo_mg/L''],
      body = [(Some 5, Some 20200101, [Some ''7.1'', None]),
              (Some 5, Some 20200102, [Some ''<7.3'', None])]\<rparr> =
   Inr [\<lparr>station_id = Some 5, date = Some 20200101, method_id = Some 10268, value = ''7.1''\<rparr>,
        \<lparr>station_id = Some 5, date = Some 20200102, method_id = Some 10268, value = ''<7.3''\<rparr>] \<and>
   map_of meth_map ''123'' = None \<and>
   map_station_ids (map_method_ids
     \<lparr>params = [''pH'', ''123''],
      body = [(''ABC'', Some 20200101, [Some ''7.1'', Some ''4.2''])]\<rparr>) [(''ABC'', 5)] =
   Inr \<lparr>params = [Num 10268, Name ''123''],
        body = [(Some 5, Some 20200101, [Some ''7.1'', Some ''4.2''])]\<rparr> \<and>
   wide_to_long
     \<lparr>params = [Num 10268, Name ''123''],
      body = [(Some 5, Some 20200101, [Some ''7.1'', Some ''4.2''])]\<rparr> =
   Inr [\<lparr>station_id = Some 5, date = Some 20200101, method_id = Some 10268, value = ''7.1''\<rparr>,
        \<lparr>station_id = Some 5, date = Some 20200101, method_id = Some 123, value = ''4.2''\<rparr>]"
proof -
  have a: "map_of meth_map ''Foo_mg/L'' = None"
    by (simp add: meth_map_def)
  have a': "map_of meth_map ''123'' = None"
    by (simp add: meth_map_def)
  have p: "map_of meth_map ''pH'' = Some (Num 10268)"
    by (simp add: meth_map_def)
  have l: "label_int (Num 10268) = Inr 10268"
    by (simp add: label_int_def int64_def)
  have l': "label_int (Name ''123'') = Inr 123"
    by (simp add: label_int_def int64_def py_int_123)
  have b: "map_station_ids (map_method_ids
     \<lparr>params = [''pH'', ''Foo_mg/L''],
      body = [(''ABC'', Some 20200101, [Some ''7.1'', None]),
              (''ABC'', Some 20200102, [Some ''<7.3'', None])]\<rparr>) [(''ABC'', 5)] =
   Inr \<lparr>params = [Num 10268, Name ''Foo_mg/L''],
        body = [(Some 5, Some 20200101, [Some ''7.1'', None]),
                (Some 5, Some 20200102, [Some ''<7.3'', None])]\<rparr>"
    by (simp add: map_station_ids_def map_method_ids_def merge_stations_def rename_def a p)
  have c: "wide_to_long
     \<lparr>params = [Num 10268, Name ''Foo_mg/L''],
      body = [(Some 5, Some 20200101, [Some ''7.1'', None]),
              (Some 5, Some 20200102, [Some ''<7.3'', None])]\<rparr> =
   Inr [\<lparr>station_id = Some 5, date = Some 20200101, method_id = Some 10268, value = ''7.1''\<rparr>,
        \<lparr>station_id = Some 5, date = Some 20200102, method_id = Some 10268, value = ''<7.3''\<rparr>]"
    by (simp add: wide_to_long_def melt_def dropna_value_def cell_at_def enumerate_eq_zip
        upt_rec l)
  have b': "map_station_ids (map_method_ids
     \<lparr>params = [''pH'', ''123''],
      body = [(''ABC'', Some 20200101, [Some ''7.1'', Some ''4.2''])]\<rparr>) [(''ABC'', 5)] =
   Inr \<lparr>params = [Num 10268, Name ''123''],
        body = [(Some 5, Some 20200101, [Some ''7.1'', Some ''4.2''])]\<rparr>"
    by (simp add: map_station_ids_def map_method_ids_def merge_stations_def rename_def a' p)
  have c': "wide_to_long
     \<lparr>params = [Num 10268, Name ''123''],
      body = [(Some 5, Some 20200101, [Some ''7.1'', Some ''4.2''])]\<rparr> =
   Inr [\<lparr>station_id = Some 5, date = Some 20200101, method_id = Some 10268, value = ''7.1''\<rparr>,
        \<lparr>station_id = Some 5, date = Some 20200101, method_id = Some 123, value = ''4.2''\<rparr>]"
    by (simp add: wide_to_long_def melt_def dropna_value_def cell_at_def enumerate_eq_zip
        upt_rec l l')
  from a b c a' b' c' show ?thesis by blast
qed

section \<open>Properties of \<^verbatim>\<open>remove_duplicates\<close>\<close>

lemma drop_seen_keys:
  "set (map cols (drop_seen cols seen df)) = set (map cols df) - set seen"
  by (induction df arbitrary: seen) auto

lemma drop_seen_unseen: "r \<in> set (drop_seen cols seen df) \<Longrightarrow> cols r \<notin> set seen"
  by (induction df arbitrary: seen) (fastforce split: if_splits)+

lemma drop_seen_distinct: "distinct (map cols (drop_seen cols seen df))"
  by (induction df arbitrary: seen) (auto dest: drop_seen_unseen)

lemma drop_seen_id:
  "distinct (map cols df) \<Longrightarrow> set (map cols df) \<inter> set seen = {} \<Longrightarrow> drop_seen cols seen df = df"
  by (induction df arbitrary: seen) auto

lemma key3_aggregate: "key3 (aggregate accumulate df k) = k"
  by (simp add: aggregate_def key3_def split_beta)

lemma map_key3_groupby: "map key3 (groupby_aggregate accumulate df) = group_keys df"
  by (simp add: groupby_aggregate_def key3_aggregate cong: map_cong)

lemma distinct_group_keys: "distinct (group_keys df)"
  by (simp add: group_keys_def)

lemma set_group_keys: "set (group_keys df) = {k \<in> set (map key3 df). notna_key k}"
  by (auto simp: group_keys_def)

lemma long_observations_keys:
  "long_observations df \<Longrightarrow> {k \<in> set (map key3 df). notna_key k} = set (map key3 df)"
  by (auto simp: long_observations_def list_all_iff)






text \<open>
  Claim C1. For a table of long observations and for both policies, \<^verbatim>\<open>"mean"\<close> and
  \<^verbatim>\<open>"drop"\<close>, the output has exactly one row for each key (\<open>station_id\<close>, \<open>date\<close>,
  \<open>method_id\<close>) of the input: the keys of the output are distinct and are the keys of
  the input.
\<close>

theorem remove_duplicates_one_row_per_key:
  assumes "how = ''mean'' \<or> how = ''drop''" and "long_observations df"
  shows "\<exists>out. remove_duplicates accumulate how df = Inr out \<and> distinct (map key3 out) \<and>
           set (map key3 out) = set (map key3 df)"
proof (cases "how = ''mean''")
  case True
  then have "remove_duplicates accumulate how df = Inr (groupby_aggregate accumulate df)"
    by (simp add: remove_duplicates_def)
  moreover have "distinct (map key3 (groupby_aggregate accumulate df))"
    by (simp only: map_key3_groupby distinct_group_keys)
  moreover have "set (map key3 (groupby_aggregate accumulate df)) = set (map key3 df)"
    using assms(2) by (simp only: map_key3_groupby set_group_keys long_observations_keys)
  ultimately show ?thesis by blast
next
  case False
  with assms(1) have "remove_duplicates accumulate how df = Inr (drop_duplicates key3 df)"
    by (auto simp add: remove_duplicates_def)
  moreover have "distinct (map key3 (drop_duplicates key3 df))"
    by (simp only: drop_duplicates_def drop_seen_distinct)
  moreover have "set (map key3 (drop_duplicates key3 df)) = set (map key3 df)"
    by (simp add: drop_duplicates_def drop_seen_keys del: set_map)
  ultimately show ?thesis by blast
qed

theorem remove_duplicates_one_row_per_key_witness:
  "long_observations
     [\<lparr>station_id = Some 1, date = Some 20200101, method_id = Some 10268,
       value = Some (Finite (15 / 2)), flag1 = None\<rparr>,
      \<lparr>station_id = Some 2, date = Some 20200101, method_id = Some 10268,
       value = Some (Finite 7), flag1 = None\<rparr>,
      \<lparr>station_id = Some 1, date = Some 20200101, method_id = Some 10268,
       value = Some (Finite (29 / 4)), flag1 = Some ''<''\<rparr>] \<and>
   (\<exists>out. remove_duplicates Map.empty ''drop''
     [\<lparr>station_id = Some 1, date = Some 20200101, method_id = Some 10268,
       value = Some (Finite (15 / 2)), flag1 = None\<rparr>,
      \<lparr>station_id = Some 2, date = Some 20200101, method_id = Some 10268,
       value = Some (Finite 7), flag1 = None\<rparr>,
      \<lparr>station_id = Some 1, date = Some 20200101, method_id = Some 10268,
       value = Some (Finite (29 / 4)), flag1 = Some ''<''\<rparr>] = Inr out \<and>
     distinct (map key3 out) \<and>
     set (map key3 out) =
       {(Some 1, Some 20200101, Some 10268), (Some 2, Some 20200101, Some 10268)})"
  using remove_duplicates_one_row_per_key [of "''drop''"
     "[\<lparr>station_id = Some 1, date = Some 20200101, method_id = Some 10268,
       value = Some (Finite (15 / 2)), flag1 = None\<rparr>,
      \<lparr>station_id = Some 2, date = Some 20200101, method_id = Some 10268,
       value = Some (Finite 7), flag1 = None\<rparr>,
      \<lparr>station_id = Some 1, date = Some 20200101, method_id = Some 10268,
       value = Some (Finite (29 / 4)), flag1 = Some ''<''\<rparr>]" Map.empty]
  by (simp add: long_observations_def notna_key_def key3_def insert_commute)











text \<open>
  Claim C5. The \<^verbatim>\<open>"drop"\<close> policy returns a table with one row for each key as it is,
  and so returns its own output unchanged when run again.
\<close>

theorem drop_policy_idempotent:
  "(distinct (map key3 df) \<longrightarrow> remove_duplicates accumulate ''drop'' df = Inr df) \<and>
   (\<forall>out. remove_duplicates accumulate ''drop'' df = Inr out \<longrightarrow> remove_duplicates accumulate ''drop'' out = Inr out)"
proof -
  have a: "drop_duplicates key3 xs = xs" if "distinct (map key3 xs)" for xs :: "long_obs list"
    using that by (simp add: drop_duplicates_def drop_seen_id)
  have b: "remove_duplicates accumulate ''drop'' xs = Inr (drop_duplicates key3 xs)" for xs
    by (simp add: remove_duplicates_def)
  have c: "distinct (map key3 (drop_duplicates key3 xs))" for xs :: "long_obs list"
    by (simp only: drop_duplicates_def drop_seen_distinct)
  show ?thesis using a b c by auto
qed

theorem drop_policy_idempotent_witness:
  "distinct (map key3
     [\<lparr>station_id = Some 1, date = Some 20200101, method_id = Some 10268,
       value = Some (Finite (15 / 2)), flag1 = None\<rparr>,
      \<lparr>station_id = Some 1, date = Some 20200102, method_id = Some 10268,
       value = Some (Finite (29 / 4)), flag1 = Some ''<''\<rparr>]) \<and>
   remove_duplicates Map.empty ''drop''
     [\<lparr>station_id = Some 1, date = Some 20200101, method_id = Some 10268,
       value = Some (Finite (15 / 2)), flag1 = None\<rparr>,
      \<lparr>station_id = Some 1, date = Some 20200102, method_id = Some 10268,
       value = Some (Finite (29 / 4)), flag1 = Some ''<''\<rparr>] =
   Inr [\<lparr>station_id = Some 1, date = Some 20200101, method_id = Some 10268,
         value = Some (Finite (15 / 2)), flag1 = None\<rparr>,
        \<lparr>station_id = Some 1, date = Some 20200102, method_id = Some 10268,
         value = Some (Finite (29 / 4)), flag1 = Some ''<''\<rparr>]"
  using drop_policy_idempotent [of
     "[\<lparr>station_id = Some 1, date = Some 20200101, method_id = Some 10268,
       value = Some (Finite (15 / 2)), flag1 = None\<rparr>,
      \<lparr>station_id = Some 1, date = Some 20200102, method_id = Some 10268,
       value = Some (Finite (29 / 4)), flag1 = Some ''<''\<rparr>]" Map.empty]
  by (simp add: key3_def)

section \<open>Properties of \<^verbatim>\<open>upload_samples\<close> and \<^verbatim>\<open>upload_chemistry\<close>\<close>

lemma length_append_samples:
  "length (append_samples new_id tbl rs) = length tbl + length rs"
  by (induction rs arbitrary: tbl) simp_all

lemma length_unique: "length (unique xs) = card (set xs)"
proof -
  have d: "distinct (unique xs)"
    using drop_seen_distinct [of "\<lambda>x. x" "[]" xs] by (simp add: unique_def drop_duplicates_def)
  have s: "set (unique xs) = set xs"
    using drop_seen_keys [of "\<lambda>x. x" "[]" xs] by (simp add: unique_def drop_duplicates_def)
  from d have "card (set (unique xs)) = length (unique xs)" by (rule distinct_card)
  with s show ?thesis by simp
qed

lemma length_new_samples:
  "length (new_samples df) = card ((\<lambda>r. (station_id r, date r)) ` set df)"
  by (simp add: new_samples_def length_unique)

lemma upload_samples_dry: "snd (upload_samples new_id df eng True) = eng"
  by (simp add: upload_samples_def Let_def)

lemma upload_samples_wet:
  "snd (upload_samples new_id df eng False) =
     eng\<lparr>water_samples := append_samples new_id (water_samples eng) (new_samples df)\<rparr>"
  by (simp add: upload_samples_def Let_def)

lemma upload_chemistry_dry:
  "upload_chemistry cdf eng True = (Inr (map chem_columns cdf), eng)"
  by (simp add: upload_chemistry_def Let_def)

lemma upload_chemistry_wet_ok:
  "upload_chemistry cdf eng False = (Inr out, eng') \<Longrightarrow>
     out = map chem_columns cdf \<and>
     eng' = eng\<lparr>water_chemistry_values2 := water_chemistry_values2 eng @ map chem_columns cdf\<rparr>"
  by (auto simp: upload_chemistry_def Let_def split: if_splits)

text \<open>
  Claim C7. With \<open>dry_run\<close> set, neither operation changes the database. With \<open>dry_run\<close>
  unset, \<^verbatim>\<open>upload_samples\<close> adds one water sample for each distinct (\<open>station_id\<close>,
  \<open>date\<close>) pair of its input and leaves the chemistry values alone, and
  \<^verbatim>\<open>upload_chemistry\<close>, when it returns, has added one chemistry value for each row of
  its input and left the water samples alone.
\<close>

theorem dry_run_row_counts:
  "snd (upload_samples new_id df eng True) = eng \<and>
   snd (upload_chemistry cdf eng True) = eng \<and>
   length (water_samples (snd (upload_samples new_id df eng False))) =
     length (water_samples eng) + card ((\<lambda>r. (station_id r, date r)) ` set df) \<and>
   water_chemistry_values2 (snd (upload_samples new_id df eng False)) =
     water_chemistry_values2 eng \<and>
   (\<forall>out eng'. upload_chemistry cdf eng False = (Inr out, eng') \<longrightarrow>
      length (water_chemistry_values2 eng') = length (water_chemistry_values2 eng) + length cdf \<and>
      water_samples eng' = water_samples eng)"
proof -
  have a: "snd (upload_chemistry cdf eng True) = eng"
    by (simp add: upload_chemistry_dry)
  have b: "length (water_samples (snd (upload_samples new_id df eng False))) =
     length (water_samples eng) + card ((\<lambda>r. (station_id r, date r)) ` set df)"
    by (simp add: upload_samples_wet length_append_samples length_new_samples)
  have c: "water_chemistry_values2 (snd (upload_samples new_id df eng False)) =
     water_chemistry_values2 eng"
    by (simp add: upload_samples_wet)
  have d: "length (water_chemistry_values2 eng') = length (water_chemistry_values2 eng) + length cdf \<and>
      water_samples eng' = water_samples eng"
    if "upload_chemistry cdf eng False = (Inr out, eng')" for out eng'
    using upload_chemistry_wet_ok [OF that] by simp
  from upload_samples_dry a b c d show ?thesis by blast
qed

theorem dry_run_row_counts_witness:
  "snd (upload_samples (\<lambda>t. Some (int (length t)))
     [\<lparr>station_id = Some 1, date = Some 20200102, method_id = Some 10268,
       value = Some (Finite (15 / 2)), flag1 = None\<rparr>,
      \<lparr>station_id = Some 1, date = Some 20200102, method_id = Some 10251,
       value = Some (Finite 3), flag1 = Some ''<''\<rparr>]
     \<lparr>water_samples = [(Some 7, Some 1, Some 20200101, 0, 0)], water_chemistry_values2 = []\<rparr>
     True) =
     \<lparr>water_samples = [(Some 7, Some 1, Some 20200101, 0, 0)], water_chemistry_values2 = []\<rparr> \<and>
   length (water_samples (snd (upload_samples (\<lambda>t. Some (int (length t)))
     [\<lparr>station_id = Some 1, date = Some 20200102, method_id = Some 10268,
       value = Some (Finite (15 / 2)), flag1 = None\<rparr>,
      \<lparr>station_id = Some 1, date = Some 20200102, method_id = Some 10251,
       value = Some (Finite 3), flag1 = Some ''<''\<rparr>]
     \<lparr>water_samples = [(Some 7, Some 1, Some 20200101, 0, 0)], water_chemistry_values2 = []\<rparr>
     False))) = 2 \<and>
   upload_chemistry
     [\<lparr>station_id = Some 1, date = Some 20200101, method_id = Some 10268,
       value = Some (Finite (15 / 2)), flag1 = None, water_sample_id = Some 7\<rparr>]
     \<lparr>water_samples = [(Some 7, Some 1, Some 20200101, 0, 0)], water_chemistry_values2 = []\<rparr>
     False =
     (Inr [(Some 10268, Some (Finite (15 / 2)), None, Some 7)],
      \<lparr>water_samples = [(Some 7, Some 1, Some 20200101, 0, 0)],
       water_chemistry_values2 = [(Some 10268, Some (Finite (15 / 2)), None, Some 7)]\<rparr>)"
  using dry_run_row_counts [of "\<lambda>t. Some (int (length t))"
     "[\<lparr>station_id = Some 1, date = Some 20200102, method_id = Some 10268,
       value = Some (Finite (15 / 2)), flag1 = None\<rparr>,
      \<lparr>station_id = Some 1, date = Some 20200102, method_id = Some 10251,
       value = Some (Finite 3), flag1 = Some ''<''\<rparr>]"
     "\<lparr>water_samples = [(Some 7, Some 1, Some 20200101, 0, 0)], water_chemistry_values2 = []\<rparr>"
     "[\<lparr>station_id = Some 1, date = Some 20200101, method_id = Some 10268,
       value = Some (Finite (15 / 2)), flag1 = None, water_sample_id = Some 7\<rparr>]"]
  by (simp add: upload_chemistry_def chem_columns_def Let_def)

text \<open>
  Claim C8. In dry-run mode \<^verbatim>\<open>upload_chemistry\<close> returns its rows and writes nothing,
  whatever is missing in them. With \<open>dry_run\<close> unset, a row with a missing \<open>method_id\<close>,
  \<open>water_sample_id\<close> or \<open>value\<close> makes it fail with the database untouched, and
  without such a row it appends the rows.
\<close>

theorem upload_chemistry_check:
  "upload_chemistry df eng True = (Inr (map chem_columns df), eng) \<and>
   (list_ex (\<lambda>r. method_id r = None \<or> water_sample_id r = None \<or> value r = None) df \<longrightarrow>
      upload_chemistry df eng False = (Inl (AssertionError []), eng)) \<and>
   (list_all (\<lambda>r. method_id r \<noteq> None \<and> water_sample_id r \<noteq> None \<and> value r \<noteq> None) df \<longrightarrow>
      upload_chemistry df eng False =
        (Inr (map chem_columns df),
         eng\<lparr>water_chemistry_values2 := water_chemistry_values2 eng @ map chem_columns df\<rparr>))"
proof -
  have bad: "upload_chemistry df eng False = (Inl (AssertionError []), eng)"
    if "list_ex (\<lambda>r. method_id r = None \<or> water_sample_id r = None \<or> value r = None) df"
  proof -
    from that have "filter (\<lambda>r. method_id r = None) df \<noteq> [] \<or>
        filter (\<lambda>r. water_sample_id r = None) df \<noteq> [] \<or> filter (\<lambda>r. value r = None) df \<noteq> []"
      by (auto simp: list_ex_iff filter_empty_conv)
    then show ?thesis
      by (auto simp: upload_chemistry_def)
  qed
  have good: "upload_chemistry df eng False =
        (Inr (map chem_columns df),
         eng\<lparr>water_chemistry_values2 := water_chemistry_values2 eng @ map chem_columns df\<rparr>)"
    if "list_all (\<lambda>r. method_id r \<noteq> None \<and> water_sample_id r \<noteq> None \<and> value r \<noteq> None) df"
  proof -
    from that have "filter (\<lambda>r. method_id r = None) df = []"
        "filter (\<lambda>r. water_sample_id r = None) df = []" "filter (\<lambda>r. value r = None) df = []"
      by (auto simp: list_all_iff filter_empty_conv)
    then show ?thesis
      by (simp add: upload_chemistry_def Let_def)
  qed
  from upload_chemistry_dry bad good show ?thesis by blast
qed

theorem upload_chemistry_check_witness:
  "upload_chemistry
     [\<lparr>station_id = Some 1, date = Some 20200101, method_id = Some 10268,
       value = Some (Finite 7), flag1 = None, water_sample_id = None\<rparr>]
     \<lparr>water_samples = [], water_chemistry_values2 = []\<rparr> False =
     (Inl (AssertionError []), \<lparr>water_samples = [], water_chemistry_values2 = []\<rparr>) \<and>
   upload_chemistry
     [\<lparr>station_id = Some 1, date = Some 20200101, method_id = Some 10268,
       value = Some (Finite 7), flag1 = None, water_sample_id = None\<rparr>]
     \<lparr>water_samples = [], water_chemistry_values2 = []\<rparr> True =
     (Inr [(Some 10268, Some (Finite 7), None, None)],
      \<lparr>water_samples = [], water_chemistry_values2 = []\<rparr>) \<and>
   upload_chemistry
     [\<lparr>station_id = Some 1, date = Some 20200101, method_id = Some 10268,
       value = Some (Finite 7), flag1 = None, water_sample_id = Some 7\<rparr>]
     \<lparr>water_samples = [], water_chemistry_values2 = []\<rparr> False =
     (Inr [(Some 10268, Some (Finite 7), None, Some 7)],
      \<lparr>water_samples = [],
       water_chemistry_values2 = [(Some 10268, Some (Finite 7), None, Some 7)]\<rparr>)"
proof -
  let ?bad = "[\<lparr>station_id = Some 1, date = Some 20200101, method_id = Some 10268,
       value = Some (Finite 7), flag1 = None, water_sample_id = None\<rparr>] :: chem_obs list"
  let ?good = "[\<lparr>station_id = Some 1, date = Some 20200101, method_id = Some 10268,
       value = Some (Finite 7), flag1 = None, water_sample_id = Some 7\<rparr>] :: chem_obs list"
  let ?eng = "\<lparr>water_samples = [], water_chemistry_values2 = []\<rparr>"
  have b: "list_ex (\<lambda>r. method_id r = None \<or> water_sample_id r = None \<or> value r = None) ?bad"
    by simp
  have g: "list_all (\<lambda>r. method_id r \<noteq> None \<and> water_sample_id r \<noteq> None \<and> value r \<noteq> None) ?good"
    by simp
  from b upload_chemistry_check [of ?bad ?eng]
  have 1: "upload_chemistry ?bad ?eng False = (Inl (AssertionError []), ?eng)"
    by blast
  from upload_chemistry_check [of ?bad ?eng]
  have 2: "upload_chemistry ?bad ?eng True = (Inr (map chem_columns ?bad), ?eng)"
    by blast
  from g upload_chemistry_check [of ?good ?eng]
  have 3: "upload_chemistry ?good ?eng False =
      (Inr (map chem_columns ?good),
       ?eng\<lparr>water_chemistry_values2 := water_chemistry_values2 ?eng @ map chem_columns ?good\<rparr>)"
    by blast
  from 1 2 3 show ?thesis
    by (simp add: chem_columns_def)
qed

lemma read_samples_subset:
  "(wid, sid, d) \<in> set (read_samples stn_ids tbl) \<Longrightarrow> \<exists>d1 d2. (wid, sid, d, d1, d2) \<in> set tbl"
  by (auto simp: read_samples_def split: list.splits)

text \<open>
  Claim C10. In dry-run mode \<^verbatim>\<open>upload_samples\<close> returns without an error and leaves
  the database as it is; its long table is the left join of the observations with the
  samples read from the existing table, and an observation whose (\<open>station_id\<close>,
  \<open>date\<close>) pair no stored sample has comes out once, with a missing \<open>water_sample_id\<close>.
\<close>

theorem upload_samples_dry_run:
  "upload_samples new_id df eng True =
     (Inr (unique (map (\<lambda>r. (water_sample_id r, station_id r, date r))
             (concat (map (merge_sample
                (read_samples (unique (map fst (new_samples df))) (water_samples eng))) df))),
           concat (map (merge_sample
                (read_samples (unique (map fst (new_samples df))) (water_samples eng))) df)),
      eng) \<and>
   (\<forall>r. \<not> list_ex (\<lambda>w. fst (snd w) = station_id r \<and> fst (snd (snd w)) = date r)
            (water_samples eng) \<longrightarrow>
        merge_sample (read_samples (unique (map fst (new_samples df))) (water_samples eng)) r =
          [with_sample r None])"
proof -
  have a: "upload_samples new_id df eng True =
     (Inr (unique (map (\<lambda>r. (water_sample_id r, station_id r, date r))
             (concat (map (merge_sample
                (read_samples (unique (map fst (new_samples df))) (water_samples eng))) df))),
           concat (map (merge_sample
                (read_samples (unique (map fst (new_samples df))) (water_samples eng))) df)),
      eng)"
    by (simp add: upload_samples_def Let_def)
  have b: "merge_sample (read_samples stn_ids (water_samples eng)) r = [with_sample r None]"
    if "\<not> list_ex (\<lambda>w. fst (snd w) = station_id r \<and> fst (snd (snd w)) = date r) (water_samples eng)"
    for r stn_ids
  proof -
    have "filter (\<lambda>(wid, sid, d). sid = station_id r \<and> d = date r)
            (read_samples stn_ids (water_samples eng)) = []"
    proof (rule ccontr)
      assume "filter (\<lambda>(wid, sid, d). sid = station_id r \<and> d = date r)
            (read_samples stn_ids (water_samples eng)) \<noteq> []"
      then obtain wid sid d where m: "(wid, sid, d) \<in> set (read_samples stn_ids (water_samples eng))"
          "sid = station_id r" "d = date r"
        by (auto simp: filter_empty_conv)
      from read_samples_subset [OF m(1)] obtain d1 d2
        where "(wid, sid, d, d1, d2) \<in> set (water_samples eng)" by blast
      with m(2,3) that show False
        by (force simp: list_ex_iff)
    qed
    then show ?thesis by (simp add: merge_sample_def)
  qed
  from a b show ?thesis by blast
qed

theorem upload_samples_dry_run_witness:
  "upload_samples (\<lambda>t. Some (int (length t)))
     [\<lparr>station_id = Some 1, date = Some 20200101, method_id = Some 10268,
       value = Some (Finite (15 / 2)), flag1 = None\<rparr>,
      \<lparr>station_id = Some 1, date = Some 20200102, method_id = Some 10268,
       value = Some (Finite (29 / 4)), flag1 = None\<rparr>]
     \<lparr>water_samples = [(Some 7, Some 1, Some 20200101, 0, 0)], water_chemistry_values2 = []\<rparr>
     True =
     (Inr ([(Some 7, Some 1, Some 20200101), (None, Some 1, Some 20200102)],
           [\<lparr>station_id = Some 1, date = Some 20200101, method_id = Some 10268,
             value = Some (Finite (15 / 2)), flag1 = None, water_sample_id = Some 7\<rparr>,
            \<lparr>station_id = Some 1, date = Some 20200102, method_id = Some 10268,
             value = Some (Finite (29 / 4)), flag1 = None, water_sample_id = None\<rparr>]),
      \<lparr>water_samples = [(Some 7, Some 1, Some 20200101, 0, 0)], water_chemistry_values2 = []\<rparr>)"
proof -
  let ?df = "[\<lparr>station_id = Some 1, date = Some 20200101, method_id = Some 10268,
       value = Some (Finite (15 / 2)), flag1 = None\<rparr>,
      \<lparr>station_id = Some 1, date = Some 20200102, method_id = Some 10268,
       value = Some (Finite (29 / 4)), flag1 = None\<rparr>] :: long_obs list"
  let ?eng = "\<lparr>water_samples = [(Some 7, Some 1, Some 20200101, 0, 0)], water_chemistry_values2 = []\<rparr>"
  have n: "new_samples ?df = [(Some 1, Some 20200101, 0, 0), (Some 1, Some 20200102, 0, 0)]"
    by (simp add: new_samples_def unique_def drop_duplicates_def)
  have u: "unique [Some (1::int), Some 1] = [Some 1]"
    by (simp add: unique_def drop_duplicates_def)
  have r: "read_samples [Some 1] [(Some 7, Some 1, Some 20200101, 0, 0)] =
      [(Some 7, Some 1, Some 20200101)]"
    by (simp add: read_samples_def)
  have m: "\<not> list_ex (\<lambda>w. fst (snd w) = Some 1 \<and> fst (snd (snd w)) = Some 20200102)
            (water_samples ?eng)"
    by simp
  show ?thesis
    using m upload_samples_dry_run [of "\<lambda>t. Some (int (length t))" ?df ?eng]
    by (simp add: n u r merge_sample_def with_sample_def unique_def drop_duplicates_def)
qed

end
